theory Spec2Isabelle
  imports Main
begin

section \<open>Data model (types.ts)\<close>

text \<open>
  The records keep the fields the report viewer, the report builder and the generative
  service read. Optional fields (\<open>alias?\<close>, \<open>views?\<close>, \<open>formatting?\<close>) are options;
  JavaScript's \<open>===\<close> on strings is equality of \<open>string\<close>.
\<close>

datatype ColumnType = TString | TNumber | TDate | TBoolean | TCurrency

fun columnTypeName :: "ColumnType \<Rightarrow> string" where
  "columnTypeName TString = ''string''"
| "columnTypeName TNumber = ''number''"
| "columnTypeName TDate = ''date''"
| "columnTypeName TBoolean = ''boolean''"
| "columnTypeName TCurrency = ''currency''"

record ColumnDef =
  col_id :: string
  col_name :: string
  col_type :: ColumnType
  col_alias :: "string option"

text \<open>\<open>TableDef\<close> and \<open>ViewDef\<close> agree on every field read here; one record serves both.\<close>

record TableDef =
  tbl_id :: string
  tbl_name :: string
  tbl_alias :: "string option"
  tbl_columns :: "ColumnDef list"
  tbl_exposed :: bool

datatype DataSourceType = Postgres | Mysql | Snowflake | Custom

record DataSource =
  ds_id :: string
  ds_name :: string
  ds_type :: DataSourceType
  ds_tables :: "TableDef list"
  ds_views :: "TableDef list option"

datatype FormattingConfig =
    DateFormatting string
  | NumberFormatting nat bool
  | CurrencyFormatting string nat bool string
  | BooleanFormatting string
  | StringFormatting string

record ReportColumn =
  rc_tableId :: string
  rc_columnId :: string
  rc_alias :: "string option"
  rc_formatting :: "FormattingConfig option"

record FilterCondition =
  flt_id :: string
  flt_tableId :: string
  flt_columnId :: string
  flt_operator :: string
  flt_value :: string

datatype SortDirection = Asc | Desc

record SortCondition =
  srt_tableId :: string
  srt_columnId :: string
  srt_direction :: SortDirection

datatype VisualizationType = VTable | VBar | VLine | VPie | VArea

record ReportConfig =
  rep_id :: string
  rep_name :: string
  selectedColumns :: "ReportColumn list"
  filters :: "FilterCondition list"
  sorts :: "SortCondition list"
  visualization :: VisualizationType

section \<open>Type-operator matrix (ReportBuilder, getOperatorsForType)\<close>

text \<open>
  The function switches on the type's name as a string and has a \<open>default\<close> branch;
  each entry is \<open>(value, label)\<close>.
\<close>

definition getOperatorsForType :: "string \<Rightarrow> (string \<times> string) list" where
  "getOperatorsForType columnType =
     (if columnType = ''string'' then
        [(''equals'', ''Equals''), (''not_equals'', ''Not Equals''),
         (''contains'', ''Contains''), (''not_contains'', ''Does Not Contain''),
         (''starts_with'', ''Starts With''), (''ends_with'', ''Ends With''),
         (''is_empty'', ''Is Empty''), (''is_not_empty'', ''Is Not Empty''),
         (''in'', ''In List'')]
      else if columnType = ''number'' \<or> columnType = ''currency'' then
        [(''equals'', ''Equals''), (''not_equals'', ''Not Equals''),
         (''gt'', ''Greater Than''), (''gte'', ''Greater Than or Equal''),
         (''lt'', ''Less Than''), (''lte'', ''Less Than or Equal''),
         (''between'', ''Between''), (''is_null'', ''Is Null''),
         (''is_not_null'', ''Is Not Null'')]
      else if columnType = ''date'' then
        [(''equals'', ''On Date''), (''not_equals'', ''Not On Date''),
         (''gt'', ''After''), (''gte'', ''On or After''),
         (''lt'', ''Before''), (''lte'', ''On or Before''),
         (''between'', ''Between Dates''), (''is_null'', ''Is Null''),
         (''is_not_null'', ''Is Not Null''), (''today'', ''Is Today''),
         (''this_week'', ''This Week''), (''this_month'', ''This Month''),
         (''this_year'', ''This Year'')]
      else if columnType = ''boolean'' then
        [(''equals'', ''Is''), (''is_null'', ''Is Null''),
         (''is_not_null'', ''Is Not Null'')]
      else
        [(''equals'', ''Equals''), (''not_equals'', ''Not Equals''),
         (''contains'', ''Contains''), (''is_null'', ''Is Null''),
         (''is_not_null'', ''Is Not Null'')])"

definition operatorValues :: "string \<Rightarrow> string list" where
  "operatorValues columnType = map fst (getOperatorsForType columnType)"

text \<open>The operator table of the specification (section 4.2), row by row.\<close>

definition spec_string_ops :: "string list" where
  "spec_string_ops = [''equals'', ''not_equals'', ''contains'', ''not_contains'',
     ''starts_with'', ''ends_with'', ''is_empty'', ''is_not_empty'', ''in'']"

definition spec_numeric_ops :: "string list" where
  "spec_numeric_ops = [''equals'', ''not_equals'', ''gt'', ''gte'', ''lt'', ''lte'',
     ''between'', ''is_null'', ''is_not_null'']"

definition spec_date_ops :: "string list" where
  "spec_date_ops = [''equals'', ''not_equals'', ''gt'', ''gte'', ''lt'', ''lte'',
     ''between'', ''is_null'', ''is_not_null'', ''today'', ''this_week'', ''this_month'',
     ''this_year'']"

definition spec_boolean_ops :: "string list" where
  "spec_boolean_ops = [''equals'', ''is_null'', ''is_not_null'']"

definition spec_default_ops :: "string list" where
  "spec_default_ops = [''equals'', ''not_equals'', ''contains'', ''is_null'', ''is_not_null'']"

definition spec_operatorsFor :: "string \<Rightarrow> string list" where
  "spec_operatorsFor T =
     (if T = ''string'' then spec_string_ops
      else if T = ''number'' \<or> T = ''currency'' then spec_numeric_ops
      else if T = ''date'' then spec_date_ops
      else if T = ''boolean'' then spec_boolean_ops
      else spec_default_ops)"

section \<open>Small library: Set insertion order, join, split, decimal numerals\<close>

text \<open>
  \<open>Array.from(new Set(xs))\<close> keeps the first occurrence of every element, in order
  of first appearance.
\<close>

fun setFrom :: "'a list \<Rightarrow> 'a list \<Rightarrow> 'a list" where
  "setFrom acc [] = acc"
| "setFrom acc (x # xs) = setFrom (if x \<in> set acc then acc else acc @ [x]) xs"

definition arrayFromSet :: "'a list \<Rightarrow> 'a list" where
  "arrayFromSet xs = setFrom [] xs"

text \<open>\<open>xs.join(sep)\<close>.\<close>

fun joinWith :: "string \<Rightarrow> string list \<Rightarrow> string" where
  "joinWith sep [] = []"
| "joinWith sep [x] = x"
| "joinWith sep (x # y # ys) = x @ sep @ joinWith sep (y # ys)"

text \<open>\<open>s.split(d)\<close> for a one-character separator: never empty: the empty string splits into one empty segment.\<close>

fun splitOn :: "char \<Rightarrow> string \<Rightarrow> string list" where
  "splitOn d [] = [[]]"
| "splitOn d (c # cs) =
     (if c = d then [] # splitOn d cs
      else (case splitOn d cs of
              [] \<Rightarrow> [[c]]
            | w # ws \<Rightarrow> (c # w) # ws))"

definition digitChar :: "nat \<Rightarrow> char" where
  "digitChar d = (''0123456789'' ! d)"

fun showNat :: "nat \<Rightarrow> string" where
  "showNat n = (if n < 10 then [digitChar n] else showNat (n div 10) @ [digitChar (n mod 10)])"

declare showNat.simps [simp del]

section \<open>Live query service (datasourceService.ts, fetchTableData)\<close>

text \<open>
  \<open>fetchTableData(dataSourceOrId, table, columns, limit)\<close> has four parameters. The
  body it posts is \<open>{table, columns, limit}\<close> plus \<open>dataSourceId\<close> for a string
  argument or \<open>dataSource\<close> for an object. The transport \<open>fetch\<close> is a parameter.
\<close>

datatype SourceArg = SourceId string | SourceObject DataSource

record QueryBody =
  qb_table :: string
  qb_columns :: "string list"
  qb_limit :: nat
  qb_dataSourceId :: "string option"
  qb_dataSource :: "DataSource option"

definition fetchTableData_body :: "SourceArg \<Rightarrow> string \<Rightarrow> string list \<Rightarrow> nat \<Rightarrow> QueryBody" where
  "fetchTableData_body dataSourceOrId table columns limit =
     (case dataSourceOrId of
        SourceId i \<Rightarrow>
          \<lparr>qb_table = table, qb_columns = columns, qb_limit = limit,
           qb_dataSourceId = Some i, qb_dataSource = None\<rparr>
      | SourceObject d \<Rightarrow>
          \<lparr>qb_table = table, qb_columns = columns, qb_limit = limit,
           qb_dataSourceId = None, qb_dataSource = Some d\<rparr>)"

text \<open>
  A response: \<open>res.ok\<close>, \<open>res.status\<close>, \<open>res.text()\<close> and \<open>res.json()\<close>
  (\<open>None\<close> when the body is not JSON). The promise is rejected in two ways: with the
  \<open>Error\<close> thrown for a response that is not ok, and, when \<open>res.json()\<close> fails, with
  the \<open>TypeError\<close> of the handler's own \<open>res.text()\<close>, since the body has been read by
  then; the handler's \<open>Invalid JSON response\<close> error is not reached on a response.
\<close>

record 'row HttpResponse =
  res_ok :: bool
  res_status :: nat
  res_text :: string
  res_json :: "'row list option"

datatype FetchRejection = RequestFailed string | BodyAlreadyRead

definition fetchTableData ::
  "(QueryBody \<Rightarrow> 'row HttpResponse) \<Rightarrow> SourceArg \<Rightarrow> string \<Rightarrow> string list \<Rightarrow> nat
     \<Rightarrow> FetchRejection + 'row list" where
  "fetchTableData fetch dataSourceOrId table columns limit =
     (let res = fetch (fetchTableData_body dataSourceOrId table columns limit) in
      if \<not> res_ok res then
        Inl (RequestFailed
               (''Request failed ('' @ showNat (res_status res) @ ''): '' @
                (if res_text res = [] then ''Failed to fetch data'' else res_text res)))
      else (case res_json res of
              Some rows \<Rightarrow> Inr rows
            | None \<Rightarrow> Inl BodyAlreadyRead))"

section \<open>Report viewer: acquisition (ReportViewer, fetchData)\<close>

datatype FetchError =
    NoDataSource
  | NoColumnsSelected
  | MultiSourceViolation nat "string list"
  | TargetNotFoundOrNotExposed bool "string list"
  | ColumnNotFound string bool string
  | FetchFailed

definition tableOrView :: "bool \<Rightarrow> string" where
  "tableOrView isView = (if isView then ''view'' else ''table'')"

text \<open>The text handed to \<open>setError\<close> for each failure.\<close>

fun errorMessage :: "FetchError \<Rightarrow> string" where
  "errorMessage NoDataSource = ''No data source configured for this report.''"
| "errorMessage NoColumnsSelected = ''No columns selected for this report.''"
| "errorMessage (MultiSourceViolation n names) =
     ''Live data fetch supports reports which select columns from a single table or view only. Found ''
       @ showNat n @ '' different sources: '' @ joinWith '', '' names"
| "errorMessage (TargetNotFoundOrNotExposed isView ids) =
     ''Target '' @ tableOrView isView @
     '' not found or not exposed in datasource. Looking for IDs: '' @ joinWith '', '' ids"
| "errorMessage (ColumnNotFound columnId isView tableName) =
     ''Column '' @ columnId @ '' not found on '' @ tableOrView isView @ '' '' @ tableName @ ''.''"
| "errorMessage FetchFailed = ''Failed to fetch live data for this report.''"

text \<open>
  The two delegate calls of \<open>fetchData\<close>, with the arguments as written at the call
  sites: \<open>generateReportData(dataSource, report, 100)\<close> and
  \<open>fetchTableData(dsArg, table.name, cols, 1000000, filters)\<close>.
\<close>

datatype DelegateCall =
    GenerateReportData DataSource ReportConfig nat
  | FetchTableData DataSource string "string list" nat "FilterCondition list"

definition viewsOf :: "DataSource \<Rightarrow> TableDef list" where
  "viewsOf ds = (case ds_views ds of None \<Rightarrow> [] | Some vs \<Rightarrow> vs)"

definition tableIdsOf :: "ReportConfig \<Rightarrow> string list" where
  "tableIdsOf report = arrayFromSet (map rc_tableId (selectedColumns report))"

text \<open>The name behind an id in the duplicate-id check: by \<open>id\<close> only, tables before views.\<close>

definition nameForId :: "DataSource \<Rightarrow> string \<Rightarrow> string" where
  "nameForId ds i =
     (case find (\<lambda>t. tbl_id t = i) (ds_tables ds) of
        Some t \<Rightarrow> tbl_name t
      | None \<Rightarrow>
          (case find (\<lambda>v. tbl_id v = i) (viewsOf ds) of
             Some v \<Rightarrow> tbl_name v
           | None \<Rightarrow> ''UNKNOWN''))"

definition allTableViewNames :: "DataSource \<Rightarrow> string list \<Rightarrow> string list" where
  "allTableViewNames ds tableIds = map (nameForId ds) tableIds"

definition sameViewByName :: "DataSource \<Rightarrow> string list \<Rightarrow> bool" where
  "sameViewByName ds tableIds =
     (case arrayFromSet (allTableViewNames ds tableIds) of
        [n] \<Rightarrow> n \<noteq> ''UNKNOWN''
      | _ \<Rightarrow> False)"

text \<open>
  The loop over \<open>tableIds\<close> that looks for the target by id or name, tables before
  views, and stops at the first hit; \<open>isView\<close> is threaded as the loop does.
\<close>

fun findTarget :: "DataSource \<Rightarrow> bool \<Rightarrow> string list \<Rightarrow> TableDef option \<times> bool" where
  "findTarget ds isView [] = (None, isView)"
| "findTarget ds isView (tableId # rest) =
     (case find (\<lambda>t. tbl_id t = tableId \<or> tbl_name t = tableId) (ds_tables ds) of
        Some t \<Rightarrow> (Some t, isView)
      | None \<Rightarrow>
          (case find (\<lambda>v. tbl_id v = tableId \<or> tbl_name v = tableId) (viewsOf ds) of
             Some v \<Rightarrow> (Some v, True)
           | None \<Rightarrow> findTarget ds False rest))"

text \<open>Column resolution against the one target, in selection order; the first miss ends it.\<close>

fun resolveColumns :: "TableDef \<Rightarrow> bool \<Rightarrow> ReportColumn list \<Rightarrow> FetchError + string list" where
  "resolveColumns table isView [] = Inr []"
| "resolveColumns table isView (rc # rcs) =
     (case find (\<lambda>cc. col_id cc = rc_columnId rc \<or> col_name cc = rc_columnId rc)
             (tbl_columns table) of
        Some col \<Rightarrow>
          (case resolveColumns table isView rcs of
             Inl e \<Rightarrow> Inl e
           | Inr cols \<Rightarrow> Inr (col_name col # cols))
      | None \<Rightarrow>
          (case find (\<lambda>cc. col_name cc = rc_columnId rc) (tbl_columns table) of
             Some colByName \<Rightarrow>
               (case resolveColumns table isView rcs of
                  Inl e \<Rightarrow> Inl e
                | Inr cols \<Rightarrow> Inr (col_name colByName # cols))
           | None \<Rightarrow> Inl (ColumnNotFound (rc_columnId rc) isView (tbl_name table))))"

text \<open>
  The live branch of \<open>fetchData\<close> up to the call of \<open>fetchTableData\<close>:
  \<open>requestForTarget\<close> is the part after the single-source check.
\<close>

definition requestForTarget ::
  "DataSource \<Rightarrow> ReportConfig \<Rightarrow> string list \<Rightarrow> FetchError + DelegateCall" where
  "requestForTarget dataSource report tableIds =
     (case findTarget dataSource False tableIds of
        (None, isView) \<Rightarrow> Inl (TargetNotFoundOrNotExposed isView tableIds)
      | (Some table, isView) \<Rightarrow>
          if \<not> tbl_exposed table then Inl (TargetNotFoundOrNotExposed isView tableIds)
          else
            (case resolveColumns table isView (selectedColumns report) of
               Inl e \<Rightarrow> Inl e
             | Inr cols \<Rightarrow>
                 Inr (FetchTableData dataSource (tbl_name table) cols 1000000
                        (filters report))))"

definition liveRequest :: "DataSource \<Rightarrow> ReportConfig \<Rightarrow> FetchError + DelegateCall" where
  "liveRequest dataSource report =
     (if selectedColumns report = [] then Inl NoColumnsSelected
      else if length (tableIdsOf report) \<noteq> 1 \<and>
              \<not> sameViewByName dataSource (tableIdsOf report) then
        Inl (MultiSourceViolation (length (tableIdsOf report))
               (allTableViewNames dataSource (tableIdsOf report)))
      else requestForTarget dataSource report (tableIdsOf report))"

text \<open>
  Everything \<open>fetchData\<close> decides before its single \<open>await\<close>: a custom source goes to
  the generative service first; the checks for a missing source and for an empty selection
  come after that test.
\<close>

definition fetchData_request :: "DataSource option \<Rightarrow> ReportConfig \<Rightarrow> FetchError + DelegateCall" where
  "fetchData_request dataSource report =
     (case dataSource of
        Some ds \<Rightarrow>
          if ds_type ds = Custom then Inr (GenerateReportData ds report 100)
          else liveRequest ds report
      | None \<Rightarrow> Inl NoDataSource)"

datatype DataOrigin = Live | AI

record 'row ViewerState =
  vs_data :: "'row list"
  vs_error :: "FetchError option"
  vs_dataOrigin :: "DataOrigin option"
  vs_recordsCount :: "nat option"

definition failWith :: "FetchError \<Rightarrow> 'row ViewerState \<Rightarrow> 'row ViewerState" where
  "failWith e st = st\<lparr>vs_data := [], vs_error := Some e, vs_recordsCount := None\<rparr>"

definition loaded :: "DataOrigin \<Rightarrow> 'row list \<Rightarrow> 'row ViewerState \<Rightarrow> 'row ViewerState" where
  "loaded origin rows st =
     st\<lparr>vs_data := rows, vs_error := None, vs_dataOrigin := Some origin,
        vs_recordsCount := Some (length rows)\<rparr>"

text \<open>
  \<open>fetchData\<close> with its two collaborators as parameters: the generative service
  (a rejected promise is \<open>Inl\<close>) and the transport under \<open>fetchTableData\<close>. The result is
  the new viewer state and the delegate calls made, in order.
\<close>

definition fetchData ::
  "(DataSource \<Rightarrow> ReportConfig \<Rightarrow> nat \<Rightarrow> string + 'row list) \<Rightarrow>
   (QueryBody \<Rightarrow> 'row HttpResponse) \<Rightarrow>
   DataSource option \<Rightarrow> ReportConfig \<Rightarrow> 'row ViewerState \<Rightarrow>
   'row ViewerState \<times> DelegateCall list" where
  "fetchData generateReportData fetch dataSource report st =
     (case fetchData_request dataSource report of
        Inl e \<Rightarrow> (failWith e st, [])
      | Inr (GenerateReportData ds r n) \<Rightarrow>
          (case generateReportData ds r n of
             Inr result \<Rightarrow> (loaded AI result st, [GenerateReportData ds r n])
           | Inl msg \<Rightarrow> (failWith FetchFailed st, [GenerateReportData ds r n]))
      | Inr (FetchTableData ds table cols limit flts) \<Rightarrow>
          (case fetchTableData fetch (SourceObject ds) table cols limit of
             Inr rows \<Rightarrow> (loaded Live rows st, [FetchTableData ds table cols limit flts])
           | Inl msg \<Rightarrow> (failWith FetchFailed st, [FetchTableData ds table cols limit flts])))"

fun isMultiSource :: "FetchError \<Rightarrow> bool" where
  "isMultiSource (MultiSourceViolation n names) = True"
| "isMultiSource e = False"

fun isGenerateCall :: "DelegateCall \<Rightarrow> bool" where
  "isGenerateCall (GenerateReportData ds r n) = True"
| "isGenerateCall (FetchTableData ds t cols limit flts) = False"

fun isLiveCall :: "DelegateCall \<Rightarrow> bool" where
  "isLiveCall (GenerateReportData ds r n) = False"
| "isLiveCall (FetchTableData ds t cols limit flts) = True"

section \<open>Report viewer: labels and the table view (getAliasForField, renderVisuals)\<close>

definition simpleNameOf :: "string \<Rightarrow> string" where
  "simpleNameOf fieldName =
     (if CHR ''.'' \<in> set fieldName then last (splitOn (CHR ''.'') fieldName) else fieldName)"

text \<open>An optional string used as a condition: \<open>undefined\<close> and the empty string are falsy.\<close>

fun truthyString :: "string option \<Rightarrow> string option" where
  "truthyString None = None"
| "truthyString (Some a) = (if a = [] then None else Some a)"

definition reportAliasOf :: "ReportConfig \<Rightarrow> string \<Rightarrow> string option" where
  "reportAliasOf report fieldName =
     (case find (\<lambda>rc. rc_columnId rc = simpleNameOf fieldName \<or> rc_columnId rc = fieldName)
             (selectedColumns report) of
        Some reportCol \<Rightarrow> truthyString (rc_alias reportCol)
      | None \<Rightarrow> None)"

text \<open>
  The table of the schema lookup: only when the selection carries exactly one table id,
  the id is not empty and a data source is present; by id or name, tables before views.
\<close>

definition aliasTable :: "ReportConfig \<Rightarrow> DataSource option \<Rightarrow> TableDef option" where
  "aliasTable report dataSource =
     (case (dataSource, tableIdsOf report) of
        (Some ds, [tableId]) \<Rightarrow>
          if tableId = [] then None
          else
            (case find (\<lambda>t. tbl_id t = tableId \<or> tbl_name t = tableId) (ds_tables ds) of
               Some t \<Rightarrow> Some t
             | None \<Rightarrow> find (\<lambda>v. tbl_id v = tableId \<or> tbl_name v = tableId) (viewsOf ds))
      | _ \<Rightarrow> None)"

definition schemaAliasOf :: "ReportConfig \<Rightarrow> DataSource option \<Rightarrow> string \<Rightarrow> string option" where
  "schemaAliasOf report dataSource fieldName =
     (case aliasTable report dataSource of
        None \<Rightarrow> None
      | Some table \<Rightarrow>
          (case find (\<lambda>cc. col_name cc = simpleNameOf fieldName \<or>
                           col_id cc = simpleNameOf fieldName \<or>
                           tbl_name table @ ''.'' @ col_name cc = fieldName)
                  (tbl_columns table) of
             Some col \<Rightarrow> truthyString (col_alias col)
           | None \<Rightarrow> None))"

definition getAliasForField :: "ReportConfig \<Rightarrow> DataSource option \<Rightarrow> string \<Rightarrow> string" where
  "getAliasForField report dataSource fieldName =
     (case reportAliasOf report fieldName of
        Some a \<Rightarrow> a
      | None \<Rightarrow>
          (case schemaAliasOf report dataSource fieldName of
             Some a \<Rightarrow> a
           | None \<Rightarrow>
               if simpleNameOf fieldName \<noteq> [] then simpleNameOf fieldName else fieldName))"

text \<open>
  Two ways a field can be without a label: no alias is recorded on any selected column or
  on any column of the schema, or the name matches no selected column and no schema column.
\<close>

definition noAliasAnywhere :: "ReportConfig \<Rightarrow> DataSource option \<Rightarrow> bool" where
  "noAliasAnywhere report dataSource =
     (list_all (\<lambda>rc. truthyString (rc_alias rc) = None) (selectedColumns report) \<and>
      (case dataSource of
         None \<Rightarrow> True
       | Some ds \<Rightarrow>
           list_all (\<lambda>t. list_all (\<lambda>c. truthyString (col_alias c) = None) (tbl_columns t))
             (ds_tables ds @ viewsOf ds)))"

definition unknownField :: "ReportConfig \<Rightarrow> DataSource option \<Rightarrow> string \<Rightarrow> bool" where
  "unknownField report dataSource fieldName =
     (list_all (\<lambda>rc. rc_columnId rc \<noteq> simpleNameOf fieldName \<and> rc_columnId rc \<noteq> fieldName)
        (selectedColumns report) \<and>
      (case dataSource of
         None \<Rightarrow> True
       | Some ds \<Rightarrow>
           list_all
             (\<lambda>t. list_all
                    (\<lambda>c. col_name c \<noteq> simpleNameOf fieldName \<and>
                         col_id c \<noteq> simpleNameOf fieldName \<and>
                         tbl_name t @ ''.'' @ col_name c \<noteq> fieldName)
                    (tbl_columns t))
             (ds_tables ds @ viewsOf ds)))"

text \<open>
  Cell values: strings, booleans and \<open>null\<close>. Numbers are IEEE doubles and structured
  values go through \<open>JSON.stringify\<close>; neither is modelled. A row is its keys in order
  with their values.
\<close>

datatype CellValue = CString string | CBool bool | CNull

type_synonym Row = "(string \<times> CellValue) list"

text \<open>\<open>typeof val === 'object' ? JSON.stringify(val) : String(val)\<close>.\<close>

fun renderCell :: "CellValue \<Rightarrow> string" where
  "renderCell (CString s) = s"
| "renderCell (CBool b) = (if b then ''true'' else ''false'')"
| "renderCell CNull = ''null''"

datatype Rendered =
    Message string
  | Chart
  | TableView "string list" "string list list"

text \<open>
  \<open>renderVisuals\<close> once loading has ended: a message for no data, a chart for bar, line
  and pie, and in the default branch the table of headers and cell texts.
\<close>

definition renderVisuals :: "ReportConfig \<Rightarrow> DataSource option \<Rightarrow> Row ViewerState \<Rightarrow> Rendered" where
  "renderVisuals report dataSource st =
     (case vs_data st of
        [] \<Rightarrow>
          Message (case vs_error st of Some e \<Rightarrow> errorMessage e | None \<Rightarrow> ''No Data Available'')
      | row # rest \<Rightarrow>
          if visualization report = VBar \<or> visualization report = VLine \<or>
             visualization report = VPie then Chart
          else
            TableView (map (\<lambda>key. getAliasForField report dataSource key) (map fst row))
                      (map (\<lambda>r. map (\<lambda>kv. renderCell (snd kv)) r) (row # rest)))"

section \<open>Generative service (geminiService, generateReportData)\<close>

definition newline :: string where
  "newline = [char_of (10::nat)]"

definition schemaDescription :: "DataSource \<Rightarrow> string" where
  "schemaDescription dataSource =
     joinWith (newline @ newline)
       (map (\<lambda>t. ''Table: '' @ tbl_name t @ newline @ ''Columns: '' @
                  joinWith '', ''
                    (map (\<lambda>c. col_name c @ '' ('' @ columnTypeName (col_type c) @ '')'')
                         (tbl_columns t)))
            (filter tbl_exposed (ds_tables dataSource)))"

text \<open>
  The \<open>Columns needed\<close> line: \<open>table?.name\<close> and \<open>col?.name\<close> of a template literal
  print \<open>undefined\<close> when the lookup by id fails. The lookup reads \<open>dataSource.tables\<close>
  as it is.
\<close>

definition columnNeeded :: "DataSource \<Rightarrow> ReportColumn \<Rightarrow> string" where
  "columnNeeded dataSource c =
     (case find (\<lambda>t. tbl_id t = rc_tableId c) (ds_tables dataSource) of
        None \<Rightarrow> ''undefined.undefined''
      | Some table \<Rightarrow>
          tbl_name table @ ''.'' @
          (case find (\<lambda>col. col_id col = rc_columnId c) (tbl_columns table) of
             None \<Rightarrow> ''undefined''
           | Some col \<Rightarrow> col_name col))"

definition columnsNeeded :: "DataSource \<Rightarrow> ReportConfig \<Rightarrow> string" where
  "columnsNeeded dataSource reportConfig =
     joinWith '', '' (map (columnNeeded dataSource) (selectedColumns reportConfig))"

text \<open>
  The prompt, by its interpolated parts in order: the row count, the schema description,
  the columns needed, and the filters and sorts that go through \<open>JSON.stringify\<close>.
\<close>

record Prompt =
  pr_rowCount :: nat
  pr_schema :: string
  pr_columns :: string
  pr_filters :: "FilterCondition list"
  pr_sorts :: "SortCondition list"

definition queryDescription :: "DataSource \<Rightarrow> ReportConfig \<Rightarrow> nat \<Rightarrow> Prompt" where
  "queryDescription dataSource reportConfig rowCount =
     \<lparr>pr_rowCount = rowCount,
      pr_schema = schemaDescription dataSource,
      pr_columns = columnsNeeded dataSource reportConfig,
      pr_filters = filters reportConfig,
      pr_sorts = sorts reportConfig\<rparr>"

text \<open>Without an API key nothing is sent and the result is the empty array.\<close>

definition generateReportData_prompt ::
  "string \<Rightarrow> DataSource \<Rightarrow> ReportConfig \<Rightarrow> nat \<Rightarrow> Prompt option" where
  "generateReportData_prompt apiKey dataSource reportConfig rowCount =
     (if apiKey = [] then None else Some (queryDescription dataSource reportConfig rowCount))"

section \<open>Example inputs\<close>

text \<open>
  After the fixture of the viewer's tests: one exposed table \<open>users\<close> in a Postgres
  source; here the column \<open>name\<close> also has an alias.
\<close>

definition ex_users :: TableDef where
  "ex_users =
     \<lparr>tbl_id = ''table1'', tbl_name = ''users'', tbl_alias = None,
      tbl_columns =
        [\<lparr>col_id = ''col1'', col_name = ''id'', col_type = TNumber, col_alias = None\<rparr>,
         \<lparr>col_id = ''col2'', col_name = ''name'', col_type = TString,
          col_alias = Some ''Full Name''\<rparr>,
         \<lparr>col_id = ''col3'', col_name = ''email'', col_type = TString, col_alias = None\<rparr>],
      tbl_exposed = True\<rparr>"

definition ex_ds :: DataSource where
  "ex_ds =
     \<lparr>ds_id = ''ds1'', ds_name = ''Test Database'', ds_type = Postgres,
      ds_tables = [ex_users], ds_views = Some []\<rparr>"

definition ex_custom_ds :: DataSource where
  "ex_custom_ds = ex_ds\<lparr>ds_type := Custom\<rparr>"

definition ex_hidden_ds :: DataSource where
  "ex_hidden_ds = ex_ds\<lparr>ds_tables := [ex_users\<lparr>tbl_exposed := False\<rparr>]\<rparr>"

definition ex_col :: "string \<Rightarrow> string \<Rightarrow> ReportColumn" where
  "ex_col tableId columnId =
     \<lparr>rc_tableId = tableId, rc_columnId = columnId, rc_alias = None, rc_formatting = None\<rparr>"

definition ex_report :: ReportConfig where
  "ex_report =
     \<lparr>rep_id = ''report1'', rep_name = ''Test Report'',
      selectedColumns = [ex_col ''table1'' ''col1'', ex_col ''table1'' ''col2''],
      filters = [], sorts = [], visualization = VTable\<rparr>"

definition ex_alias_report :: ReportConfig where
  "ex_alias_report =
     ex_report\<lparr>selectedColumns :=
       [\<lparr>rc_tableId = ''table1'', rc_columnId = ''name'', rc_alias = Some ''Customer'',
         rc_formatting = None\<rparr>]\<rparr>"

definition ex_sort :: SortCondition where
  "ex_sort = \<lparr>srt_tableId = ''table1'', srt_columnId = ''col2'', srt_direction = Asc\<rparr>"

definition ex_filter :: FilterCondition where
  "ex_filter =
     \<lparr>flt_id = ''f1'', flt_tableId = ''table1'', flt_columnId = ''col1'',
      flt_operator = ''starts_with'', flt_value = ''1''\<rparr>"

definition ex_equals_filter :: FilterCondition where
  "ex_equals_filter = ex_filter\<lparr>flt_operator := ''equals''\<rparr>"

definition ex_state :: "Row ViewerState" where
  "ex_state = \<lparr>vs_data = [], vs_error = None, vs_dataOrigin = None, vs_recordsCount = None\<rparr>"

definition ex_generate :: "DataSource \<Rightarrow> ReportConfig \<Rightarrow> nat \<Rightarrow> string + Row list" where
  "ex_generate ds r n = Inr [[(''id'', CString ''1'')]]"

definition ex_fetch :: "QueryBody \<Rightarrow> Row HttpResponse" where
  "ex_fetch body =
     \<lparr>res_ok = True, res_status = 200, res_text = [],
      res_json = Some [[(''id'', CString ''1''), (''name'', CString ''Alice'')]]\<rparr>"

text \<open>Two entries of one source that carry different ids and the same name.\<close>

definition ex_twin :: "string \<Rightarrow> string \<Rightarrow> TableDef" where
  "ex_twin i n = ex_users\<lparr>tbl_id := i, tbl_name := n\<rparr>"

definition ex_twin_ds :: "string \<Rightarrow> DataSource" where
  "ex_twin_ds n = ex_ds\<lparr>ds_tables := [ex_twin ''a'' n, ex_twin ''b'' n]\<rparr>"

definition ex_twin_report :: ReportConfig where
  "ex_twin_report =
     ex_report\<lparr>selectedColumns := [ex_col ''a'' ''col1'', ex_col ''b'' ''col2'']\<rparr>"

text \<open>A selection that names the table \<open>users\<close> once by its id and once by its name.\<close>

definition ex_mixed_report :: ReportConfig where
  "ex_mixed_report =
     ex_report\<lparr>selectedColumns := [ex_col ''table1'' ''col1'', ex_col ''users'' ''col2'']\<rparr>"

text \<open>A date column selected with the default date format, and one returned row.\<close>

definition ex_date_ds :: DataSource where
  "ex_date_ds =
     ex_ds\<lparr>ds_tables :=
       [ex_users\<lparr>tbl_columns :=
          [\<lparr>col_id = ''col1'', col_name = ''created_at'', col_type = TDate,
            col_alias = None\<rparr>]\<rparr>]\<rparr>"

definition ex_date_report :: ReportConfig where
  "ex_date_report =
     ex_report\<lparr>selectedColumns :=
       [\<lparr>rc_tableId = ''table1'', rc_columnId = ''col1'', rc_alias = None,
         rc_formatting = Some (DateFormatting ''MM/DD/YYYY'')\<rparr>]\<rparr>"

definition ex_date_fetch :: "QueryBody \<Rightarrow> Row HttpResponse" where
  "ex_date_fetch body =
     \<lparr>res_ok = True, res_status = 200, res_text = [],
      res_json = Some [[(''created_at'', CString ''2024-01-15'')]]\<rparr>"

text \<open>A generative source whose only table is not exposed, and a report that selects from it.\<close>

definition ex_secret_ds :: DataSource where
  "ex_secret_ds =
     \<lparr>ds_id = ''ds2'', ds_name = ''Generated'', ds_type = Custom,
      ds_tables =
        [\<lparr>tbl_id = ''t1'', tbl_name = ''secret'', tbl_alias = None,
          tbl_columns =
            [\<lparr>col_id = ''c1'', col_name = ''ssn'', col_type = TString, col_alias = None\<rparr>],
          tbl_exposed = False\<rparr>],
      ds_views = None\<rparr>"

definition ex_secret_report :: ReportConfig where
  "ex_secret_report = ex_report\<lparr>selectedColumns := [ex_col ''t1'' ''c1'']\<rparr>"

text \<open>
  A live source with the table \<open>users\<close> hidden beside an exposed table \<open>orders\<close>, and
  a report that selects a column of each.
\<close>

definition ex_pair_ds :: DataSource where
  "ex_pair_ds =
     ex_ds\<lparr>ds_tables := [ex_users\<lparr>tbl_exposed := False\<rparr>, ex_twin ''table2'' ''orders'']\<rparr>"

definition ex_pair_report :: ReportConfig where
  "ex_pair_report =
     ex_report\<lparr>selectedColumns := [ex_col ''table1'' ''col1'', ex_col ''table2'' ''col2'']\<rparr>"

text \<open>
  Reports as the report builder writes them, with the column referenced by its id, and
  an alias recorded on the selected column: on \<open>col2\<close> (physical name \<open>name\<close>, which
  has a schema alias) and on \<open>col3\<close> (physical name \<open>email\<close>, which has none).
\<close>

definition ex_id_alias_report :: ReportConfig where
  "ex_id_alias_report =
     ex_report\<lparr>selectedColumns :=
       [\<lparr>rc_tableId = ''table1'', rc_columnId = ''col2'', rc_alias = Some ''Customer'',
         rc_formatting = None\<rparr>]\<rparr>"

definition ex_email_alias_report :: ReportConfig where
  "ex_email_alias_report =
     ex_report\<lparr>selectedColumns :=
       [\<lparr>rc_tableId = ''table1'', rc_columnId = ''col3'', rc_alias = Some ''Contact'',
         rc_formatting = None\<rparr>]\<rparr>"

section \<open>Theorems\<close>

subsection \<open>Library facts\<close>

lemma setFrom_set: "set (setFrom acc xs) = set acc \<union> set xs"
  by (induction xs arbitrary: acc) auto

lemma setFrom_distinct: "distinct acc \<Longrightarrow> distinct (setFrom acc xs)"
  by (induction xs arbitrary: acc) auto

lemma arrayFromSet_set: "set (arrayFromSet xs) = set xs"
  by (simp add: arrayFromSet_def setFrom_set)

lemma arrayFromSet_distinct: "distinct (arrayFromSet xs)"
  by (simp add: arrayFromSet_def setFrom_distinct)

lemma arrayFromSet_Nil_iff: "arrayFromSet xs = [] \<longleftrightarrow> xs = []"
  using arrayFromSet_set [of xs] by (metis set_empty)

lemma distinct_singleton_set: "distinct ys \<Longrightarrow> set ys = {n} \<Longrightarrow> ys = [n]"
proof (cases ys)
  case Nil
  assume "set ys = {n}"
  with Nil show ?thesis by simp
next
  case (Cons a as)
  assume d: "distinct ys" and s: "set ys = {n}"
  from s Cons have a: "a = n" by auto
  have "as = []"
  proof (cases as)
    case Nil
    then show ?thesis .
  next
    case (Cons b bs)
    with s \<open>ys = a # as\<close> have "b = n" by auto
    with d a \<open>ys = a # as\<close> Cons show ?thesis by simp
  qed
  with a Cons show ?thesis by simp
qed


lemma find_Some_mem: "find P xs = Some x \<Longrightarrow> x \<in> set xs \<and> P x"
  by (induction xs) (auto split: if_splits)

lemma find_None_list_all: "list_all (\<lambda>x. \<not> P x) xs \<Longrightarrow> find P xs = None"
  by (induction xs) auto

lemma find_weaken: "find P xs = Some t \<Longrightarrow> \<exists>u. find (\<lambda>x. P x \<or> Q x) xs = Some u"
  by (induction xs) auto

lemma splitOn_not_Nil: "splitOn d s \<noteq> []"
  by (induction s) (auto split: list.splits)

lemma splitOn_no_separator: "d \<notin> set s \<Longrightarrow> splitOn d s = [s]"
  by (induction s) auto

lemma splitOn_two_segments: "d \<in> set s \<Longrightarrow> \<exists>w v vs. splitOn d s = w # v # vs"
proof (induction s)
  case Nil
  then show ?case by simp
next
  case (Cons c cs)
  show ?case
  proof (cases "c = d")
    case True
    obtain v vs where "splitOn d cs = v # vs"
      using splitOn_not_Nil [of d cs] by (cases "splitOn d cs") auto
    with True show ?thesis by simp
  next
    case False
    with Cons.prems have "d \<in> set cs" by simp
    then obtain w v vs where "splitOn d cs = w # v # vs"
      using Cons.IH by blast
    with False show ?thesis by simp
  qed
qed

lemma last_splitOn: "d \<notin> set s \<Longrightarrow> last (splitOn d (p @ d # s)) = s"
proof (induction p)
  case Nil
  then show ?case by (simp add: splitOn_no_separator)
next
  case (Cons c p)
  show ?case
  proof (cases "c = d")
    case True
    with Cons show ?thesis by (simp add: splitOn_not_Nil)
  next
    case False
    obtain w v vs where sp: "splitOn d (p @ d # s) = w # v # vs"
      using splitOn_two_segments [of d "p @ d # s"] by auto
    with Cons have "last (v # vs) = s" by simp
    with False sp show ?thesis by simp
  qed
qed

subsection \<open>Evaluation of the examples\<close>

lemmas ex_defs = ex_users_def ex_ds_def ex_custom_ds_def ex_hidden_ds_def ex_col_def
  ex_report_def ex_alias_report_def ex_sort_def ex_filter_def ex_equals_filter_def
  ex_state_def ex_generate_def ex_fetch_def ex_twin_def ex_twin_ds_def ex_twin_report_def
  ex_mixed_report_def
  ex_date_ds_def ex_date_report_def ex_date_fetch_def ex_secret_ds_def ex_secret_report_def
  ex_pair_ds_def ex_pair_report_def ex_id_alias_report_def ex_email_alias_report_def

lemmas request_defs = fetchData_request_def liveRequest_def requestForTarget_def
  tableIdsOf_def arrayFromSet_def sameViewByName_def allTableViewNames_def nameForId_def
  viewsOf_def

lemmas alias_defs = getAliasForField_def reportAliasOf_def schemaAliasOf_def aliasTable_def
  tableIdsOf_def arrayFromSet_def simpleNameOf_def viewsOf_def

lemma ex_report_request:
  "fetchData_request (Some ex_ds) ex_report =
     Inr (FetchTableData ex_ds ''users'' [''id'', ''name''] 1000000 [])"
  by (simp add: request_defs ex_defs)


lemma fetchTableData_not_found:
  "fetchTableData (\<lambda>body. \<lparr>res_ok = False, res_status = 404, res_text = ''Not found'',
       res_json = None\<rparr>) (SourceId ''ds-1'') ''nonexistent'' [''id''] 5000000 =
     (Inl (RequestFailed ''Request failed (404): Not found'') :: FetchRejection + Row list)"
  by (simp add: fetchTableData_def showNat.simps digitChar_def)

subsection \<open>The acquisition request\<close>

lemma fetchData_calls_request:
  "snd (fetchData generateReportData fetch dataSource report st) =
     (case fetchData_request dataSource report of Inl e \<Rightarrow> [] | Inr c \<Rightarrow> [c])"
  by (simp add: fetchData_def split: sum.splits DelegateCall.splits)

lemma requestForTarget_target:
  "requestForTarget d report ids = Inr c \<Longrightarrow>
   \<exists>table isView cols. findTarget d False ids = (Some table, isView) \<and> tbl_exposed table \<and>
      resolveColumns table isView (selectedColumns report) = Inr cols \<and>
      c = FetchTableData d (tbl_name table) cols 1000000 (filters report)"
  by (auto simp: requestForTarget_def split: prod.splits option.splits if_splits sum.splits)

lemma liveRequest_is_live: "liveRequest ds report = Inr c \<Longrightarrow> isLiveCall c"
  by (auto simp: liveRequest_def split: if_splits dest: requestForTarget_target)

lemma fetchData_request_live:
  "fetchData_request dataSource report = Inr (FetchTableData d name cols limit flts) \<Longrightarrow>
   dataSource = Some d \<and> ds_type d \<noteq> Custom \<and>
   requestForTarget d report (tableIdsOf report) = Inr (FetchTableData d name cols limit flts)"
  by (auto simp: fetchData_request_def liveRequest_def split: option.splits if_splits
      dest: requestForTarget_target)

lemma resolveColumns_names:
  "resolveColumns table isView rcs = Inr cols \<Longrightarrow>
   list_all2 (\<lambda>rc name. \<exists>c \<in> set (tbl_columns table).
       (col_id c = rc_columnId rc \<or> col_name c = rc_columnId rc) \<and> name = col_name c) rcs cols"
proof (induction rcs arbitrary: cols)
  case Nil
  then show ?case by simp
next
  case (Cons rc rcs)
  then show ?case
    by (auto split: option.splits sum.splits dest!: find_Some_mem)
qed

text \<open>
  What the call of \<open>fetchTableData\<close> does carry: the source itself, the name of the
  target found for the selection's table ids, one physical column name per selected
  column in selection order, the limit 1000000, and the report's filters as its fifth
  argument. The body that \<open>fetchTableData\<close> posts has the table, the columns, the limit
  and the source.
\<close>

lemma live_request_contents:
  assumes "fetchData_request dataSource report = Inr (FetchTableData d name cols limit flts)"
  shows "dataSource = Some d \<and> limit = 1000000 \<and> flts = filters report \<and>
     (\<exists>table isView. findTarget d False (tableIdsOf report) = (Some table, isView) \<and>
        name = tbl_name table \<and>
        list_all2 (\<lambda>rc n. \<exists>c \<in> set (tbl_columns table).
           (col_id c = rc_columnId rc \<or> col_name c = rc_columnId rc) \<and> n = col_name c)
          (selectedColumns report) cols) \<and>
     fetchTableData_body (SourceObject d) name cols limit =
       \<lparr>qb_table = name, qb_columns = cols, qb_limit = 1000000,
        qb_dataSourceId = None, qb_dataSource = Some d\<rparr>"
proof -
  from assms have ds: "dataSource = Some d"
    and req: "requestForTarget d report (tableIdsOf report) =
       Inr (FetchTableData d name cols limit flts)"
    by (simp_all add: fetchData_request_live)
  from req obtain table isView cols' where
    t: "findTarget d False (tableIdsOf report) = (Some table, isView)" and
    r: "resolveColumns table isView (selectedColumns report) = Inr cols'" and
    c: "FetchTableData d name cols limit flts =
          FetchTableData d (tbl_name table) cols' 1000000 (filters report)"
    by (blast dest: requestForTarget_target)
  from r c have "list_all2 (\<lambda>rc n. \<exists>c \<in> set (tbl_columns table).
           (col_id c = rc_columnId rc \<or> col_name c = rc_columnId rc) \<and> n = col_name c)
          (selectedColumns report) cols"
    using resolveColumns_names by simp
  with ds t c show ?thesis
    by (simp add: fetchTableData_body_def)
qed

lemma requestForTarget_sorts:
  "requestForTarget ds (report\<lparr>sorts := s\<rparr>) ids = requestForTarget ds report ids"
  by (simp add: requestForTarget_def split: prod.splits option.splits sum.splits)

text \<open>For a live source the request does not depend on the report's sorts.\<close>

lemma live_request_ignores_sorts:
  "ds_type ds \<noteq> Custom \<Longrightarrow>
   fetchData_request (Some ds) (report\<lparr>sorts := s\<rparr>) = fetchData_request (Some ds) report"
  by (simp add: fetchData_request_def liveRequest_def requestForTarget_sorts tableIdsOf_def)

text \<open>
  C1. The claim asks for the resolved filters and the resolved sorts in the request handed
  to the live query delegate. For the test fixture with one filter and one sort, the viewer
  calls \<open>fetchTableData\<close> with the source, \<open>users\<close>, the two column names, the limit and
  the filters: no sorts. The body \<open>fetchTableData\<close> posts has neither filters nor sorts,
  and the request is the one of the same report without the sort.
\<close>

theorem fetchData_request_omits_sorts:
  "filters (ex_report\<lparr>filters := [ex_equals_filter], sorts := [ex_sort]\<rparr>) = [ex_equals_filter] \<and>
   sorts (ex_report\<lparr>filters := [ex_equals_filter], sorts := [ex_sort]\<rparr>) = [ex_sort] \<and>
   snd (fetchData ex_generate ex_fetch (Some ex_ds)
          (ex_report\<lparr>filters := [ex_equals_filter], sorts := [ex_sort]\<rparr>) ex_state) =
     [FetchTableData ex_ds ''users'' [''id'', ''name''] 1000000 [ex_equals_filter]] \<and>
   fetchTableData_body (SourceObject ex_ds) ''users'' [''id'', ''name''] 1000000 =
     \<lparr>qb_table = ''users'', qb_columns = [''id'', ''name''], qb_limit = 1000000,
      qb_dataSourceId = None, qb_dataSource = Some ex_ds\<rparr> \<and>
   fetchData_request (Some ex_ds)
       (ex_report\<lparr>filters := [ex_equals_filter], sorts := [ex_sort]\<rparr>) =
     fetchData_request (Some ex_ds) (ex_report\<lparr>filters := [ex_equals_filter]\<rparr>)"
  by (simp add: fetchData_calls_request request_defs fetchTableData_body_def ex_defs)

subsection \<open>Empty selection\<close>

text \<open>
  C2, as stated, fails for a custom source: the test for a custom source comes before the
  test for an empty selection, so the generative service is called and its rows are shown.
\<close>

theorem custom_source_empty_selection_generates:
  "ds_type ex_custom_ds = Custom \<and>
   selectedColumns (ex_report\<lparr>selectedColumns := []\<rparr>) = [] \<and>
   fetchData ex_generate ex_fetch (Some ex_custom_ds) (ex_report\<lparr>selectedColumns := []\<rparr>)
       ex_state =
     (loaded AI [[(''id'', CString ''1'')]] ex_state,
      [GenerateReportData ex_custom_ds (ex_report\<lparr>selectedColumns := []\<rparr>) 100])"
  by (simp add: fetchData_def request_defs ex_defs)

text \<open>
  C2, amended. For every data source whose type is not custom and every report whose
  \<open>selectedColumns\<close> is empty, acquisition fails with \<open>NoColumnsSelected\<close>, the data is
  emptied and no delegate is called.
\<close>

theorem empty_selection_live_source:
  "ds_type ds \<noteq> Custom \<Longrightarrow> selectedColumns report = [] \<Longrightarrow>
   fetchData generateReportData fetch (Some ds) report st = (failWith NoColumnsSelected st, [])"
  by (simp add: fetchData_def fetchData_request_def liveRequest_def)

theorem empty_selection_live_source_witness:
  "ds_type ex_ds \<noteq> Custom \<and> selectedColumns (ex_report\<lparr>selectedColumns := []\<rparr>) = [] \<and>
   fetchData ex_generate ex_fetch (Some ex_ds) (ex_report\<lparr>selectedColumns := []\<rparr>) ex_state =
     (ex_state\<lparr>vs_error := Some NoColumnsSelected\<rparr>, [])"
proof -
  have t: "ds_type ex_ds \<noteq> Custom" by (simp add: ex_defs)
  have s: "selectedColumns (ex_report\<lparr>selectedColumns := []\<rparr>) = []" by simp
  show ?thesis
    using t s empty_selection_live_source [OF t s, of ex_generate ex_fetch ex_state]
    by (simp add: failWith_def ex_state_def)
qed

subsection \<open>Routing\<close>

lemma fetchData_custom:
  assumes "ds_type ds = Custom"
  shows "fetchData generateReportData fetch (Some ds) report st =
     (case generateReportData ds report 100 of
        Inr result \<Rightarrow> (loaded AI result st, [GenerateReportData ds report 100])
      | Inl msg \<Rightarrow> (failWith FetchFailed st, [GenerateReportData ds report 100]))"
  using assms by (simp add: fetchData_def fetchData_request_def)

lemma fetchData_live:
  assumes "ds_type ds \<noteq> Custom"
  shows "fetchData generateReportData fetch (Some ds) report st =
     (case liveRequest ds report of
        Inl e \<Rightarrow> (failWith e st, [])
      | Inr (GenerateReportData d r n) \<Rightarrow> (failWith FetchFailed st, [])
      | Inr (FetchTableData d table cols limit flts) \<Rightarrow>
          (case fetchTableData fetch (SourceObject d) table cols limit of
             Inr rows \<Rightarrow> (loaded Live rows st, [FetchTableData d table cols limit flts])
           | Inl msg \<Rightarrow> (failWith FetchFailed st, [FetchTableData d table cols limit flts])))"
proof (cases "liveRequest ds report")
  case (Inl e)
  with assms show ?thesis by (simp add: fetchData_def fetchData_request_def)
next
  case (Inr c)
  then have "isLiveCall c" by (rule liveRequest_is_live)
  then obtain d table cols limit flts where "c = FetchTableData d table cols limit flts"
    by (cases c) simp_all
  with assms Inr show ?thesis by (simp add: fetchData_def fetchData_request_def)
qed

text \<open>
  C3. For a custom source the outcome of \<open>fetchData\<close> is the result of the generative
  service applied to the source, the report and 100: its rows are shown with origin AI, its
  rejection is the fetch failure, and that call is the one delegate call. The outcome does
  not depend on the transport of the live query at all. For a source of any other type the
  outcome does not depend on the generative service, no call of it is made, and when the
  checks pass the outcome is the result of \<open>fetchTableData\<close> on the transport. Without a
  source the outcome is the no-data-source failure and no delegate is called.
\<close>

theorem delegates_exclusive:
  "(ds_type ds = Custom \<longrightarrow>
      fetchData generateReportData fetch (Some ds) report st =
        (case generateReportData ds report 100 of
           Inr result \<Rightarrow> (loaded AI result st, [GenerateReportData ds report 100])
         | Inl msg \<Rightarrow> (failWith FetchFailed st, [GenerateReportData ds report 100])) \<and>
      fetchData generateReportData fetch (Some ds) report st =
        fetchData generateReportData fetch' (Some ds) report st) \<and>
   (ds_type ds \<noteq> Custom \<longrightarrow>
      fetchData generateReportData fetch (Some ds) report st =
        fetchData generateReportData' fetch (Some ds) report st \<and>
      filter isGenerateCall (snd (fetchData generateReportData fetch (Some ds) report st)) = [] \<and>
      (fetchData_request (Some ds) report = Inr (FetchTableData d table cols limit flts) \<longrightarrow>
         fetchData generateReportData fetch (Some ds) report st =
           (case fetchTableData fetch (SourceObject d) table cols limit of
              Inr rows \<Rightarrow> (loaded Live rows st, [FetchTableData d table cols limit flts])
            | Inl msg \<Rightarrow>
                (failWith FetchFailed st, [FetchTableData d table cols limit flts])))) \<and>
   fetchData generateReportData fetch None report st = (failWith NoDataSource st, [])"
proof (intro conjI impI)
  assume c: "ds_type ds = Custom"
  show "fetchData generateReportData fetch (Some ds) report st =
        (case generateReportData ds report 100 of
           Inr result \<Rightarrow> (loaded AI result st, [GenerateReportData ds report 100])
         | Inl msg \<Rightarrow> (failWith FetchFailed st, [GenerateReportData ds report 100]))"
    using c by (rule fetchData_custom)
  show "fetchData generateReportData fetch (Some ds) report st =
        fetchData generateReportData fetch' (Some ds) report st"
    using c by (simp add: fetchData_custom)
next
  assume n: "ds_type ds \<noteq> Custom"
  show "fetchData generateReportData fetch (Some ds) report st =
        fetchData generateReportData' fetch (Some ds) report st"
    using n by (simp add: fetchData_live)
  show "filter isGenerateCall (snd (fetchData generateReportData fetch (Some ds) report st)) = []"
  proof (cases "liveRequest ds report")
    case (Inl e)
    with n show ?thesis by (simp add: fetchData_calls_request fetchData_request_def)
  next
    case (Inr c)
    then have "isLiveCall c" by (rule liveRequest_is_live)
    then have "\<not> isGenerateCall c" by (cases c) simp_all
    with n Inr show ?thesis by (simp add: fetchData_calls_request fetchData_request_def)
  qed
next
  assume n: "ds_type ds \<noteq> Custom"
    and r: "fetchData_request (Some ds) report = Inr (FetchTableData d table cols limit flts)"
  from n r have "liveRequest ds report = Inr (FetchTableData d table cols limit flts)"
    by (simp add: fetchData_request_def)
  with n show "fetchData generateReportData fetch (Some ds) report st =
           (case fetchTableData fetch (SourceObject d) table cols limit of
              Inr rows \<Rightarrow> (loaded Live rows st, [FetchTableData d table cols limit flts])
            | Inl msg \<Rightarrow>
                (failWith FetchFailed st, [FetchTableData d table cols limit flts]))"
    by (simp add: fetchData_live)
next
  show "fetchData generateReportData fetch None report st = (failWith NoDataSource st, [])"
    by (simp add: fetchData_def fetchData_request_def)
qed

theorem delegates_exclusive_witness:
  "ds_type ex_custom_ds = Custom \<and>
   fetchData ex_generate ex_fetch (Some ex_custom_ds) ex_report ex_state =
     (loaded AI [[(''id'', CString ''1'')]] ex_state,
      [GenerateReportData ex_custom_ds ex_report 100]) \<and>
   fetchData ex_generate ex_fetch (Some ex_custom_ds) ex_report ex_state =
     fetchData ex_generate ex_date_fetch (Some ex_custom_ds) ex_report ex_state \<and>
   ds_type ex_ds \<noteq> Custom \<and>
   fetchData_request (Some ex_ds) ex_report =
     Inr (FetchTableData ex_ds ''users'' [''id'', ''name''] 1000000 []) \<and>
   fetchData ex_generate ex_fetch (Some ex_ds) ex_report ex_state =
     (loaded Live [[(''id'', CString ''1''), (''name'', CString ''Alice'')]] ex_state,
      [FetchTableData ex_ds ''users'' [''id'', ''name''] 1000000 []]) \<and>
   fetchData ex_generate ex_fetch (Some ex_ds) ex_report ex_state =
     fetchData (\<lambda>ds r n. Inl ''rejected'') ex_fetch (Some ex_ds) ex_report ex_state \<and>
   fetchData ex_generate ex_fetch None ex_report ex_state =
     (ex_state\<lparr>vs_error := Some NoDataSource\<rparr>, [])"
proof -
  have c: "ds_type ex_custom_ds = Custom" by (simp add: ex_defs)
  have l: "ds_type ex_ds \<noteq> Custom" by (simp add: ex_defs)
  note r = ex_report_request
  note custom = delegates_exclusive [where ds = ex_custom_ds and generateReportData = ex_generate
      and fetch = ex_fetch and fetch' = ex_date_fetch and report = ex_report and st = ex_state]
  note live = delegates_exclusive [where ds = ex_ds and generateReportData = ex_generate
      and generateReportData' = "\<lambda>ds r n. Inl ''rejected''" and fetch = ex_fetch
      and report = ex_report and st = ex_state and d = ex_ds and table = "''users''"
      and cols = "[''id'', ''name'']" and limit = 1000000 and flts = "[]"]
  from custom c have g: "fetchData ex_generate ex_fetch (Some ex_custom_ds) ex_report ex_state =
     (loaded AI [[(''id'', CString ''1'')]] ex_state,
      [GenerateReportData ex_custom_ds ex_report 100])"
    by (simp add: ex_generate_def)
  from custom c have gi: "fetchData ex_generate ex_fetch (Some ex_custom_ds) ex_report ex_state =
     fetchData ex_generate ex_date_fetch (Some ex_custom_ds) ex_report ex_state"
    by blast
  from live l r have "fetchData ex_generate ex_fetch (Some ex_ds) ex_report ex_state =
     (case fetchTableData ex_fetch (SourceObject ex_ds) ''users'' [''id'', ''name''] 1000000 of
        Inr rows \<Rightarrow>
          (loaded Live rows ex_state,
           [FetchTableData ex_ds ''users'' [''id'', ''name''] 1000000 []])
      | Inl msg \<Rightarrow>
          (failWith FetchFailed ex_state,
           [FetchTableData ex_ds ''users'' [''id'', ''name''] 1000000 []]))"
    by blast
  then have f: "fetchData ex_generate ex_fetch (Some ex_ds) ex_report ex_state =
     (loaded Live [[(''id'', CString ''1''), (''name'', CString ''Alice'')]] ex_state,
      [FetchTableData ex_ds ''users'' [''id'', ''name''] 1000000 []])"
    by (simp add: fetchTableData_def ex_fetch_def)
  from live l have fi: "fetchData ex_generate ex_fetch (Some ex_ds) ex_report ex_state =
     fetchData (\<lambda>ds r n. Inl ''rejected'') ex_fetch (Some ex_ds) ex_report ex_state"
    by blast
  from live have e: "fetchData ex_generate ex_fetch None ex_report ex_state =
     (ex_state\<lparr>vs_error := Some NoDataSource\<rparr>, [])"
    by (simp add: failWith_def ex_state_def)
  from c l r g gi f fi e show ?thesis by simp
qed

subsection \<open>Single-source check\<close>

lemma sameViewByName_same:
  assumes ne: "tableIds \<noteq> []"
    and same: "\<forall>i \<in> set tableIds. nameForId ds i = n"
    and n: "n \<noteq> ''UNKNOWN''"
  shows "sameViewByName ds tableIds"
proof -
  have "set (allTableViewNames ds tableIds) = {n}"
    using ne same by (cases tableIds) (auto simp: allTableViewNames_def)
  then have "set (arrayFromSet (allTableViewNames ds tableIds)) = {n}"
    by (simp add: arrayFromSet_set)
  then have "arrayFromSet (allTableViewNames ds tableIds) = [n]"
    by (rule distinct_singleton_set [OF arrayFromSet_distinct])
  with n show ?thesis by (simp add: sameViewByName_def)
qed

lemma sameViewByName_differ:
  assumes i: "i \<in> set tableIds" and j: "j \<in> set tableIds"
    and d: "nameForId ds i \<noteq> nameForId ds j"
  shows "\<not> sameViewByName ds tableIds"
proof
  assume "sameViewByName ds tableIds"
  then obtain n where "arrayFromSet (allTableViewNames ds tableIds) = [n]"
    by (auto simp: sameViewByName_def split: list.splits)
  then have "set (allTableViewNames ds tableIds) = {n}"
    using arrayFromSet_set [of "allTableViewNames ds tableIds"] by simp
  with i j have "nameForId ds i = n" "nameForId ds j = n"
    by (auto simp: allTableViewNames_def)
  with d show False by simp
qed

lemma findTarget_first:
  assumes "nameForId ds i \<noteq> ''UNKNOWN''"
  shows "findTarget ds v (i # rest) = findTarget ds v [i] \<and> fst (findTarget ds v [i]) \<noteq> None"
proof (cases "find (\<lambda>t. tbl_id t = i) (ds_tables ds)")
  case (Some t)
  then obtain u where "find (\<lambda>t. tbl_id t = i \<or> tbl_name t = i) (ds_tables ds) = Some u"
    using find_weaken by fastforce
  then show ?thesis by simp
next
  case None
  with assms obtain w where "find (\<lambda>t. tbl_id t = i) (viewsOf ds) = Some w"
    by (auto simp: nameForId_def split: option.splits)
  then obtain u where u: "find (\<lambda>t. tbl_id t = i \<or> tbl_name t = i) (viewsOf ds) = Some u"
    using find_weaken by fastforce
  show ?thesis
    by (cases "find (\<lambda>t. tbl_id t = i \<or> tbl_name t = i) (ds_tables ds)") (simp_all add: u)
qed

lemma resolveColumns_error: "resolveColumns t v cs = Inl e \<Longrightarrow> \<not> isMultiSource e"
  by (induction cs arbitrary: e) (auto split: option.splits sum.splits)

lemma requestForTarget_error: "requestForTarget ds report ids = Inl e \<Longrightarrow> \<not> isMultiSource e"
  by (auto simp: requestForTarget_def dest: resolveColumns_error
      split: prod.splits option.splits if_splits sum.splits)

text \<open>
  Ids that all stand, by id, for entries of one name other than the text \<open>UNKNOWN\<close> pass
  the single-source check: the request is the one for the target, no failure is the
  multi-source one, and the target is found under the first id.
\<close>

lemma duplicate_ids_tolerated:
  assumes live: "ds_type ds \<noteq> Custom"
    and sel: "selectedColumns report \<noteq> []"
    and same: "\<forall>i \<in> set (tableIdsOf report). nameForId ds i = n"
    and n: "n \<noteq> ''UNKNOWN''"
  shows "fetchData_request (Some ds) report = requestForTarget ds report (tableIdsOf report)"
    and "fetchData_request (Some ds) report = Inl e \<Longrightarrow> \<not> isMultiSource e"
    and "findTarget ds False (tableIdsOf report) = findTarget ds False [hd (tableIdsOf report)]"
    and "fst (findTarget ds False (tableIdsOf report)) \<noteq> None"
proof -
  have ne: "tableIdsOf report \<noteq> []"
    using sel by (simp add: tableIdsOf_def arrayFromSet_Nil_iff)
  then obtain i rest where ids: "tableIdsOf report = i # rest"
    by (cases "tableIdsOf report") auto
  have sv: "sameViewByName ds (tableIdsOf report)"
    using ne same n by (rule sameViewByName_same)
  show eq: "fetchData_request (Some ds) report = requestForTarget ds report (tableIdsOf report)"
    using live sel sv by (simp add: fetchData_request_def liveRequest_def)
  show "fetchData_request (Some ds) report = Inl e \<Longrightarrow> \<not> isMultiSource e"
    unfolding eq by (rule requestForTarget_error)
  have "nameForId ds i \<noteq> ''UNKNOWN''" using same n ids by simp
  then have ft: "findTarget ds False (i # rest) = findTarget ds False [i]"
     and fn: "fst (findTarget ds False [i]) \<noteq> None"
    using findTarget_first by blast+
  show "findTarget ds False (tableIdsOf report) = findTarget ds False [hd (tableIdsOf report)]"
    using ft ids by (simp del: findTarget.simps)
  show "fst (findTarget ds False (tableIdsOf report)) \<noteq> None"
    using ft fn ids by (simp del: findTarget.simps)
qed

text \<open>
  Two selected ids that stand for different names always give the multi-source failure,
  which carries the number of ids and the name found for each.
\<close>

lemma distinct_tables_rejected:
  assumes live: "ds_type ds \<noteq> Custom"
    and i: "i \<in> set (tableIdsOf report)" and j: "j \<in> set (tableIdsOf report)"
    and d: "nameForId ds i \<noteq> nameForId ds j"
  shows "fetchData_request (Some ds) report =
           Inl (MultiSourceViolation (length (tableIdsOf report))
                  (allTableViewNames ds (tableIdsOf report))) \<and>
         nameForId ds i \<in> set (allTableViewNames ds (tableIdsOf report)) \<and>
         nameForId ds j \<in> set (allTableViewNames ds (tableIdsOf report))"
proof -
  have ns: "\<not> sameViewByName ds (tableIdsOf report)"
    using i j d by (rule sameViewByName_differ)
  have sel: "selectedColumns report \<noteq> []"
    using i by (auto simp: tableIdsOf_def arrayFromSet_set)
  have "i \<noteq> j" using d by auto
  have len: "length (tableIdsOf report) \<noteq> 1"
  proof
    assume "length (tableIdsOf report) = 1"
    then obtain x where "tableIdsOf report = [x]"
      by (cases "tableIdsOf report") auto
    with i j \<open>i \<noteq> j\<close> show False by simp
  qed
  show ?thesis
    using live sel ns len i j
    by (simp add: fetchData_request_def liveRequest_def allTableViewNames_def)
qed

lemma twin_ids_same_name_accepted:
  "fetchData_request (Some (ex_twin_ds ''orders'')) ex_twin_report =
     Inr (FetchTableData (ex_twin_ds ''orders'') ''orders'' [''id'', ''name''] 1000000 [])"
  by (simp add: request_defs ex_defs)

text \<open>
  C4. Two entries with the ids \<open>a\<close> and \<open>b\<close> share one name, and the report selects a
  column under each id. When the shared name is the text \<open>UNKNOWN\<close>, the placeholder the
  check uses for an id it cannot find, acquisition fails with the multi-source violation
  although both ids stand for the same name. The same failure meets a selection that
  names one table once by its id and once by its name: the check looks the name up by id
  only, while the lookup of the target, a few lines on, accepts the id or the name and
  finds the same table for both.
\<close>

theorem duplicate_ids_named_UNKNOWN_rejected:
  "map tbl_id (ds_tables (ex_twin_ds ''UNKNOWN'')) = [''a'', ''b''] \<and>
   map tbl_name (ds_tables (ex_twin_ds ''UNKNOWN'')) = [''UNKNOWN'', ''UNKNOWN''] \<and>
   tableIdsOf ex_twin_report = [''a'', ''b''] \<and>
   fetchData_request (Some (ex_twin_ds ''UNKNOWN'')) ex_twin_report =
     Inl (MultiSourceViolation 2 [''UNKNOWN'', ''UNKNOWN'']) \<and>
   errorMessage (MultiSourceViolation 2 [''UNKNOWN'', ''UNKNOWN'']) =
     ''Live data fetch supports reports which select columns from a single table or view only. Found 2 different sources: UNKNOWN, UNKNOWN'' \<and>
   tableIdsOf ex_mixed_report = [''table1'', ''users''] \<and>
   findTarget ex_ds False [''table1''] = (Some ex_users, False) \<and>
   findTarget ex_ds False [''users''] = (Some ex_users, False) \<and>
   fetchData_request (Some ex_ds) ex_mixed_report =
     Inl (MultiSourceViolation 2 [''users'', ''UNKNOWN''])"
  by (simp add: request_defs ex_defs showNat.simps digitChar_def)

subsection \<open>Exposure\<close>




subsection \<open>Filter operators\<close>

text \<open>
  C6, as stated, fails: the filter \<open>starts_with\<close> on the number column \<open>col1\<close> is not in
  the operators of \<open>number\<close>, yet acquisition succeeds and the filter is the fifth
  argument of the call of \<open>fetchTableData\<close>.
\<close>

theorem illegal_operator_forwarded:
  "flt_columnId ex_filter = ''col1'' \<and>
   map col_id (tbl_columns ex_users) = [''col1'', ''col2'', ''col3''] \<and>
   map col_type (tbl_columns ex_users) = [TNumber, TString, TString] \<and>
   flt_operator ex_filter \<notin> set (operatorValues (columnTypeName TNumber)) \<and>
   fetchData ex_generate ex_fetch (Some ex_ds) (ex_report\<lparr>filters := [ex_filter]\<rparr>) ex_state =
     (loaded Live [[(''id'', CString ''1''), (''name'', CString ''Alice'')]] ex_state,
      [FetchTableData ex_ds ''users'' [''id'', ''name''] 1000000 [ex_filter]])"
  by (simp add: fetchData_def fetchTableData_def fetchTableData_body_def request_defs ex_defs
      operatorValues_def getOperatorsForType_def)

text \<open>
  C6, amended. Acquisition does not look at filter operators: replacing the report's
  filters by any list changes neither whether acquisition fails nor the failure, and the
  delegate call carries the new list as it is (as the fifth argument of
  \<open>fetchTableData\<close>, or inside the report handed to the generative service).
\<close>

theorem filters_passed_unvalidated:
  "fetchData_request dataSource (report\<lparr>filters := fs\<rparr>) =
     (case fetchData_request dataSource report of
        Inl e \<Rightarrow> Inl e
      | Inr (GenerateReportData d r n) \<Rightarrow> Inr (GenerateReportData d (r\<lparr>filters := fs\<rparr>) n)
      | Inr (FetchTableData d t cols limit flts) \<Rightarrow> Inr (FetchTableData d t cols limit fs))"
  by (simp add: fetchData_request_def liveRequest_def requestForTarget_def tableIdsOf_def
      split: option.splits prod.splits sum.splits if_splits)

theorem filters_passed_unvalidated_witness:
  "fetchData_request (Some ex_ds) (ex_report\<lparr>filters := [ex_filter]\<rparr>) =
     Inr (FetchTableData ex_ds ''users'' [''id'', ''name''] 1000000 [ex_filter])"
  using filters_passed_unvalidated [where dataSource = "Some ex_ds" and report = ex_report
      and fs = "[ex_filter]"]
  by (simp add: ex_report_request)

subsection \<open>Type-operator matrix\<close>

text \<open>
  C8. For each of the five column types and for any other type name, the operators
  returned by \<open>getOperatorsForType\<close> are exactly the row of the specification's table,
  the list is not empty and has no duplicate, \<open>starts_with\<close> is returned for
  \<open>string\<close> only, and \<open>today\<close>, \<open>this_week\<close>, \<open>this_month\<close> and \<open>this_year\<close> for
  \<open>date\<close> only.
\<close>

theorem getOperatorsForType_matches_table:
  "operatorValues T = spec_operatorsFor T \<and>
   operatorValues T \<noteq> [] \<and>
   distinct (operatorValues T) \<and>
   (''starts_with'' \<in> set (operatorValues T)) = (T = ''string'') \<and>
   (''today'' \<in> set (operatorValues T)) = (T = ''date'') \<and>
   (''this_week'' \<in> set (operatorValues T)) = (T = ''date'') \<and>
   (''this_month'' \<in> set (operatorValues T)) = (T = ''date'') \<and>
   (''this_year'' \<in> set (operatorValues T)) = (T = ''date'')"
  by (simp add: operatorValues_def getOperatorsForType_def spec_operatorsFor_def
      spec_string_ops_def spec_numeric_ops_def spec_date_ops_def spec_boolean_ops_def
      spec_default_ops_def)


subsection \<open>Rendering of cells\<close>

lemma tableIdsOf_formatting:
  "tableIdsOf (report\<lparr>selectedColumns :=
       map (\<lambda>c. c\<lparr>rc_formatting := g c\<rparr>) (selectedColumns report)\<rparr>) = tableIdsOf report"
  by (simp add: tableIdsOf_def comp_def)

lemma find_mapped: "find P (map h xs) = map_option h (find (\<lambda>x. P (h x)) xs)"
  by (induction xs) auto

lemma reportAliasOf_formatting:
  "reportAliasOf (report\<lparr>selectedColumns :=
       map (\<lambda>c. c\<lparr>rc_formatting := g c\<rparr>) (selectedColumns report)\<rparr>) f = reportAliasOf report f"
  by (simp add: reportAliasOf_def find_mapped split: option.splits)

lemma aliasTable_formatting:
  "aliasTable (report\<lparr>selectedColumns :=
       map (\<lambda>c. c\<lparr>rc_formatting := g c\<rparr>) (selectedColumns report)\<rparr>) dataSource =
   aliasTable report dataSource"
  by (simp add: aliasTable_def tableIdsOf_formatting)

lemma schemaAliasOf_formatting:
  "schemaAliasOf (report\<lparr>selectedColumns :=
       map (\<lambda>c. c\<lparr>rc_formatting := g c\<rparr>) (selectedColumns report)\<rparr>) dataSource f =
   schemaAliasOf report dataSource f"
  by (simp add: schemaAliasOf_def aliasTable_formatting)

lemma getAliasForField_formatting:
  "getAliasForField (report\<lparr>selectedColumns :=
       map (\<lambda>c. c\<lparr>rc_formatting := g c\<rparr>) (selectedColumns report)\<rparr>) dataSource f =
   getAliasForField report dataSource f"
  by (simp add: getAliasForField_def schemaAliasOf_formatting reportAliasOf_formatting
      split: option.splits)

text \<open>The view does not depend on the formatting recorded on the selected columns.\<close>

lemma renderVisuals_ignores_formatting:
  "renderVisuals (report\<lparr>selectedColumns :=
       map (\<lambda>c. c\<lparr>rc_formatting := g c\<rparr>) (selectedColumns report)\<rparr>) dataSource st =
   renderVisuals report dataSource st"
  by (simp add: renderVisuals_def getAliasForField_formatting split: list.splits)

text \<open>
  C7. The claim has every returned value go through the formatting of its column, so
  that the date \<open>2024-01-15\<close> under the format \<open>MM/DD/YYYY\<close> shows as \<open>01/15/2024\<close>.
  For the date column selected with that format and the row the live source returns, the
  table view shows the cell as \<open>2024-01-15\<close>, the string as it came.
\<close>

theorem date_cell_rendered_raw:
  "map rc_formatting (selectedColumns ex_date_report) = [Some (DateFormatting ''MM/DD/YYYY'')] \<and>
   fetchData ex_generate ex_date_fetch (Some ex_date_ds) ex_date_report ex_state =
     (loaded Live [[(''created_at'', CString ''2024-01-15'')]] ex_state,
      [FetchTableData ex_date_ds ''users'' [''created_at''] 1000000 []]) \<and>
   renderVisuals ex_date_report (Some ex_date_ds)
       (loaded Live [[(''created_at'', CString ''2024-01-15'')]] ex_state) =
     TableView [''created_at''] [[''2024-01-15'']]"
  by (simp add: fetchData_def fetchTableData_def fetchTableData_body_def request_defs ex_defs
      renderVisuals_def loaded_def getAliasForField_def reportAliasOf_def schemaAliasOf_def
      aliasTable_def simpleNameOf_def)

subsection \<open>Labels\<close>

lemma simpleNameOf_plain: "CHR ''.'' \<notin> set f \<Longrightarrow> simpleNameOf f = f"
  by (simp add: simpleNameOf_def)

lemma simpleNameOf_qualified: "CHR ''.'' \<notin> set s \<Longrightarrow> simpleNameOf (p @ ''.'' @ s) = s"
  using last_splitOn [of "CHR ''.''" s p] by (simp add: simpleNameOf_def)

lemma aliasTable_mem:
  "aliasTable report (Some ds) = Some t \<Longrightarrow> t \<in> set (ds_tables ds @ viewsOf ds)"
  by (auto simp: aliasTable_def split: list.splits if_splits option.splits dest: find_Some_mem)

lemma aliasTable_None: "aliasTable report None = None"
  by (simp add: aliasTable_def)

lemma reportAliasOf_noAlias:
  "noAliasAnywhere report dataSource \<Longrightarrow> reportAliasOf report f = None"
  by (auto simp: noAliasAnywhere_def reportAliasOf_def list_all_iff split: option.splits
      dest: find_Some_mem)

lemma schemaAliasOf_noAlias:
  assumes n: "noAliasAnywhere report dataSource"
  shows "schemaAliasOf report dataSource f = None"
proof (cases dataSource)
  case None
  then show ?thesis by (simp add: schemaAliasOf_def aliasTable_None)
next
  case ds: (Some ds)
  show ?thesis
  proof (cases "aliasTable report dataSource")
    case None
    then show ?thesis by (simp add: schemaAliasOf_def)
  next
    case (Some t)
    with ds have "t \<in> set (ds_tables ds @ viewsOf ds)"
      using aliasTable_mem by blast
    with n ds have "\<forall>c \<in> set (tbl_columns t). truthyString (col_alias c) = None"
      by (simp add: noAliasAnywhere_def list_all_iff)
    with Some show ?thesis
      by (auto simp: schemaAliasOf_def split: option.splits dest: find_Some_mem)
  qed
qed

lemma reportAliasOf_unknown:
  "unknownField report dataSource f \<Longrightarrow> reportAliasOf report f = None"
  by (auto simp: unknownField_def reportAliasOf_def list_all_iff split: option.splits
      dest: find_Some_mem)

lemma schemaAliasOf_unknown:
  assumes n: "unknownField report dataSource f"
  shows "schemaAliasOf report dataSource f = None"
proof (cases dataSource)
  case None
  then show ?thesis by (simp add: schemaAliasOf_def aliasTable_None)
next
  case ds: (Some ds)
  show ?thesis
  proof (cases "aliasTable report dataSource")
    case None
    then show ?thesis by (simp add: schemaAliasOf_def)
  next
    case (Some t)
    with ds have "t \<in> set (ds_tables ds @ viewsOf ds)"
      using aliasTable_mem by blast
    with n ds have "\<forall>c \<in> set (tbl_columns t). col_name c \<noteq> simpleNameOf f \<and>
            col_id c \<noteq> simpleNameOf f \<and> tbl_name t @ ''.'' @ col_name c \<noteq> f"
      by (simp add: unknownField_def list_all_iff)
    then have "find (\<lambda>cc. col_name cc = simpleNameOf f \<or> col_id cc = simpleNameOf f \<or>
                 tbl_name t @ ''.'' @ col_name cc = f) (tbl_columns t) = None"
      by (intro find_None_list_all) (simp add: list_all_iff)
    with Some show ?thesis
      by (simp add: schemaAliasOf_def)
  qed
qed

text \<open>
  What holds of \<open>getAliasForField\<close>. It is a total function to strings: the source has
  no failing step on a report, an optional data source and a string, and the model has no
  error branch. When no alias is recorded anywhere, or when the name matches no selected
  column and no schema column, the result is the name itself: the trailing segment, and
  the whole field name when that segment is empty (a name that ends in a dot). The
  trailing segment of a name without a dot is the name, and of \<open>p.s\<close>, with no dot in
  \<open>s\<close>, it is \<open>s\<close>.
\<close>

lemma getAliasForField_fallback:
  assumes "noAliasAnywhere report dataSource \<or> unknownField report dataSource f"
  shows "getAliasForField report dataSource f =
     (if simpleNameOf f = [] then f else simpleNameOf f)"
proof -
  from assms have "reportAliasOf report f = None \<and> schemaAliasOf report dataSource f = None"
    using reportAliasOf_noAlias schemaAliasOf_noAlias reportAliasOf_unknown
      schemaAliasOf_unknown by blast
  then show ?thesis by (simp add: getAliasForField_def)
qed

text \<open>
  The alias of a selected column is found when its \<open>columnId\<close> is the field name or its
  trailing segment, that is, when the report references the column by its physical name.
\<close>

lemma getAliasForField_report_alias:
  assumes "find (\<lambda>rc. rc_columnId rc = simpleNameOf f \<or> rc_columnId rc = f)
      (selectedColumns report) = Some rc"
    and "rc_alias rc = Some a" and "a \<noteq> []"
  shows "getAliasForField report dataSource f = a"
  using assms by (simp add: getAliasForField_def reportAliasOf_def)

lemma getAliasForField_examples:
  "getAliasForField ex_alias_report (Some ex_ds) ''users.name'' = ''Customer'' \<and>
   getAliasForField ex_report (Some ex_ds) ''users.name'' = ''Full Name'' \<and>
   getAliasForField ex_report (Some ex_ds) ''name'' = ''Full Name'' \<and>
   getAliasForField ex_report (Some ex_ds) ''id'' = ''id'' \<and>
   getAliasForField ex_report (Some ex_ds) ''orders.total_sum'' = ''total_sum'' \<and>
   getAliasForField ex_report None ''email'' = ''email'' \<and>
   getAliasForField ex_report None ''users.'' = ''users.''"
  by (simp add: alias_defs ex_defs)

text \<open>
  C9. The claim prefers the alias recorded on the matching selected column. The report
  builder stores a selected column under the column's id, and rows come back keyed by the
  physical name. The report selects \<open>col2\<close> with the alias \<open>Customer\<close>; acquisition
  resolves that column to the physical name \<open>name\<close>, and the label of the field
  \<open>name\<close> is the schema alias \<open>Full Name\<close>: the alias on the selected column is not
  found, because the lookup compares \<open>columnId\<close> with the field name only. In the same
  way the alias \<open>Contact\<close> recorded on \<open>col3\<close> leaves the field \<open>email\<close> with its raw
  name.
\<close>

theorem report_alias_by_id_ignored:
  "map rc_columnId (selectedColumns ex_id_alias_report) = [''col2''] \<and>
   map rc_alias (selectedColumns ex_id_alias_report) = [Some ''Customer''] \<and>
   fetchData_request (Some ex_ds) ex_id_alias_report =
     Inr (FetchTableData ex_ds ''users'' [''name''] 1000000 []) \<and>
   getAliasForField ex_id_alias_report (Some ex_ds) ''name'' = ''Full Name'' \<and>
   map rc_columnId (selectedColumns ex_email_alias_report) = [''col3''] \<and>
   map rc_alias (selectedColumns ex_email_alias_report) = [Some ''Contact''] \<and>
   fetchData_request (Some ex_ds) ex_email_alias_report =
     Inr (FetchTableData ex_ds ''users'' [''email''] 1000000 []) \<and>
   getAliasForField ex_email_alias_report (Some ex_ds) ''email'' = ''email''"
  by (simp add: request_defs alias_defs ex_defs)

subsection \<open>The prompt of the generative service\<close>

text \<open>
  The schema description is built from the exposed tables only: two sources with the same
  exposed tables, in the same order, have the same description.
\<close>

lemma schemaDescription_exposed_only:
  "filter tbl_exposed (ds_tables d1) = filter tbl_exposed (ds_tables d2) \<Longrightarrow>
   schemaDescription d1 = schemaDescription d2"
  by (simp add: schemaDescription_def)

lemma schemaDescription_drops_unexposed:
  "schemaDescription (ds\<lparr>ds_tables := filter tbl_exposed (ds_tables ds)\<rparr>) = schemaDescription ds"
  by (simp add: schemaDescription_def)

text \<open>
  C10. The claim keeps every name of a table that is not exposed out of the prompt. The
  source \<open>ex_secret_ds\<close> is custom and its only table \<open>secret\<close> is not exposed; the
  report selects the column \<open>c1\<close> of that table. The viewer hands source and report to
  the generative service, whose schema description is empty, but whose
  \<open>Columns needed\<close> line is \<open>secret.ssn\<close>: the lookup for that line reads all tables.
\<close>

theorem unexposed_table_in_prompt:
  "ds_type ex_secret_ds = Custom \<and>
   map tbl_name (ds_tables ex_secret_ds) = [''secret''] \<and>
   map tbl_exposed (ds_tables ex_secret_ds) = [False] \<and>
   snd (fetchData ex_generate ex_fetch (Some ex_secret_ds) ex_secret_report ex_state) =
     [GenerateReportData ex_secret_ds ex_secret_report 100] \<and>
   generateReportData_prompt ''key'' ex_secret_ds ex_secret_report 100 =
     Some \<lparr>pr_rowCount = 100, pr_schema = [], pr_columns = ''secret.ssn'',
           pr_filters = [], pr_sorts = []\<rparr>"
  by (simp add: fetchData_calls_request fetchData_request_def generateReportData_prompt_def
      queryDescription_def schemaDescription_def columnsNeeded_def columnNeeded_def ex_defs)

end
